theory Spec2Isabelle
  imports Complex_Main
begin

section \<open>Data model of the recommendation service\<close>

text \<open>
  The Python sources compute with floats; the embedding uses exact reals, so every
  statement below is about the arithmetic the code writes down, not about rounding.
  Strings are ASCII character lists. Timestamps are seconds on the real line.
  The declarations of \<^verbatim>\<open>models/recommendation.py\<close> are read off the constructor calls
  and field accesses of the services: an enum member is represented by its
  \<^verbatim>\<open>.value\<close> string, which is all the services ever look at.
\<close>

record location =
  latitude :: real
  longitude :: real
  address :: string
  district :: string

record recommendation_item =
  item_id :: string
  item_type :: string
  name :: string
  description :: string
  item_location :: location
  rating :: real
  categories :: "string list"
  estimated_duration :: real
  estimated_cost :: real
  weather_dependent :: bool
  crowd_level :: string
  local_authenticity_score :: real

record user_interaction =
  ia_user_id :: string
  ia_item_id :: string
  interaction_type :: string
  ia_rating :: "real option"
  timestamp :: real
  ia_context :: "(string \<times> string) list"

record user_preferences =
  interests :: "string list"
  budget_range :: string
  group_type :: string
  dietary_restrictions :: "string list"
  activity_level :: string
  weather_preferences :: "string list"

text \<open>
  A Python dict with string keys and float values, in insertion order. The learned
  preference maps are \<^verbatim>\<open>defaultdict(float)\<close>: reading a missing key gives 0.
\<close>

type_synonym prefs_dict = "(string \<times> real) list"

record user_profile =
  up_user_id :: string
  preferences :: user_preferences
  interaction_history :: "user_interaction list"
  learned_preferences :: prefs_dict
  similarity_scores :: prefs_dict
  last_updated :: real

subsection \<open>Strings and dictionaries\<close>

definition lower_char :: "char \<Rightarrow> char" where
  "lower_char c =
     (case map_of (zip ''ABCDEFGHIJKLMNOPQRSTUVWXYZ'' ''abcdefghijklmnopqrstuvwxyz'') c of
        None \<Rightarrow> c | Some d \<Rightarrow> d)"

definition lower :: "string \<Rightarrow> string" where
  "lower s = map lower_char s"

text \<open>\<^verbatim>\<open>needle in haystack\<close> on strings: a contiguous occurrence.\<close>

fun starts_with :: "string \<Rightarrow> string \<Rightarrow> bool" where
  "starts_with [] s = True"
| "starts_with (c # cs) [] = False"
| "starts_with (c # cs) (d # ds) = (c = d \<and> starts_with cs ds)"

fun str_in :: "string \<Rightarrow> string \<Rightarrow> bool" where
  "str_in needle [] = (needle = [])"
| "str_in needle (d # ds) = (starts_with needle (d # ds) \<or> str_in needle ds)"

text \<open>\<^verbatim>\<open>d.get(k, default)\<close> and \<^verbatim>\<open>d[k] += x\<close> on a \<^verbatim>\<open>defaultdict(float)\<close>.\<close>

definition dict_get :: "('k \<times> 'v) list \<Rightarrow> 'k \<Rightarrow> 'v \<Rightarrow> 'v" where
  "dict_get d k dflt = (case map_of d k of None \<Rightarrow> dflt | Some v \<Rightarrow> v)"

fun dict_set :: "'k \<Rightarrow> 'v \<Rightarrow> ('k \<times> 'v) list \<Rightarrow> ('k \<times> 'v) list" where
  "dict_set k x [] = [(k, x)]"
| "dict_set k x ((k', v) # rest) =
     (if k' = k then (k', x) # rest else (k', v) # dict_set k x rest)"

definition dict_add :: "string \<Rightarrow> real \<Rightarrow> prefs_dict \<Rightarrow> prefs_dict" where
  "dict_add k x d = dict_set k (dict_get d k 0 + x) d"

section \<open>Preference learning service\<close>

record preference_service =
  learning_rate :: real
  decay_factor :: real
  user_learned_preferences :: "string \<rightharpoonup> prefs_dict"

definition new_preference_service :: preference_service where
  "new_preference_service =
     \<lparr>learning_rate = 0.1, decay_factor = 0.95, user_learned_preferences = Map.empty\<rparr>"

definition interaction_weights :: "(string \<times> real) list" where
  "interaction_weights =
     [(''view'', 0.1), (''like'', 0.3), (''visit'', 0.7),
      (''rate'', 1.0), (''share'', 0.4), (''save'', 0.5)]"

definition pl_get_interaction_weight :: "user_interaction \<Rightarrow> real" where
  "pl_get_interaction_weight interaction =
     (let base_weight = dict_get interaction_weights (interaction_type interaction) 0.1
      in case ia_rating interaction of
           Some r \<Rightarrow> base_weight * (r / 5)
         | None \<Rightarrow> base_weight)"

definition learn_from_item_attributes ::
  "real \<Rightarrow> prefs_dict \<Rightarrow> recommendation_item \<Rightarrow> real \<Rightarrow> prefs_dict" where
  "learn_from_item_attributes lr learned_prefs item weight =
     (let p1 = dict_add
                 (if estimated_cost item < 100 then ''budget_low''
                  else if estimated_cost item < 300 then ''budget_medium''
                  else if estimated_cost item < 800 then ''budget_high''
                  else ''budget_luxury'') (weight * lr) learned_prefs;
          p2 = dict_add
                 (if estimated_duration item < 120 then ''duration_short''
                  else if estimated_duration item < 240 then ''duration_medium''
                  else ''duration_long'') (weight * lr) p1;
          p3 = dict_add
                 (if rating item \<ge> 4.5 then ''quality_high''
                  else if rating item \<ge> 3.5 then ''quality_medium''
                  else ''quality_low'') (weight * lr) p2;
          p4 = dict_add
                 (if local_authenticity_score item \<ge> 0.8 then ''authenticity_high''
                  else if local_authenticity_score item \<ge> 0.5 then ''authenticity_medium''
                  else ''authenticity_low'') (weight * lr) p3
      in dict_add (''crowd_'' @ crowd_level item) (weight * lr) p4)"

definition learn_from_context ::
  "real \<Rightarrow> prefs_dict \<Rightarrow> (string \<times> string) list \<Rightarrow> real \<Rightarrow> prefs_dict" where
  "learn_from_context lr learned_prefs ctx weight =
     (let p1 = (case map_of ctx ''weather'' of
                  None \<Rightarrow> learned_prefs
                | Some weather \<Rightarrow> dict_add (''weather_'' @ lower weather) (weight * lr) learned_prefs);
          p2 = (case map_of ctx ''time_of_day'' of
                  None \<Rightarrow> p1
                | Some time_period \<Rightarrow> dict_add (''time_'' @ lower time_period) (weight * lr) p1)
      in case map_of ctx ''district'' of
           None \<Rightarrow> p2
         | Some d \<Rightarrow> dict_add (''district_'' @ lower d) (weight * lr) p2)"

text \<open>
  \<^verbatim>\<open>item_lookup = {item.id: item for item in items}\<close>: a later item with the same id
  replaces an earlier one.
\<close>

definition item_lookup :: "recommendation_item list \<Rightarrow> string \<rightharpoonup> recommendation_item" where
  "item_lookup items = map_of (rev (map (\<lambda>item. (item_id item, item)) items))"

definition learn_one ::
  "real \<Rightarrow> recommendation_item list \<Rightarrow> prefs_dict \<Rightarrow> user_interaction \<Rightarrow> prefs_dict" where
  "learn_one lr items learned_prefs interaction =
     (case item_lookup items (ia_item_id interaction) of
        None \<Rightarrow> learned_prefs
      | Some item \<Rightarrow>
          (let weight = pl_get_interaction_weight interaction;
               p1 = fold (\<lambda>category p. dict_add (''category_'' @ lower category) (weight * lr) p)
                      (categories item) learned_prefs;
               p2 = learn_from_item_attributes lr p1 item weight
           in if ia_context interaction \<noteq> []
              then learn_from_context lr p2 (ia_context interaction) weight
              else p2))"

text \<open>
  \<^verbatim>\<open>_apply_temporal_decay\<close>: nothing happens for an empty batch; otherwise every key
  is multiplied by the decay factor and then compared with 0.01.
\<close>

definition decay_entry :: "real \<Rightarrow> string \<times> real \<Rightarrow> string \<times> real" where
  "decay_entry d kv = (let v = snd kv * d in (fst kv, if v < 0.01 then 0 else v))"

definition apply_temporal_decay ::
  "real \<Rightarrow> prefs_dict \<Rightarrow> user_interaction list \<Rightarrow> prefs_dict" where
  "apply_temporal_decay d learned_prefs interactions =
     (if interactions = [] then learned_prefs else map (decay_entry d) learned_prefs)"

definition learn_from_interactions ::
  "preference_service \<Rightarrow> string \<Rightarrow> user_interaction list \<Rightarrow> recommendation_item list
     \<Rightarrow> preference_service \<times> prefs_dict" where
  "learn_from_interactions svc user_id interactions items =
     (let start = (case user_learned_preferences svc user_id of None \<Rightarrow> [] | Some p \<Rightarrow> p);
          learned = fold (\<lambda>interaction p. learn_one (learning_rate svc) items p interaction)
                      interactions start;
          decayed = apply_temporal_decay (decay_factor svc) learned interactions
      in (svc\<lparr>user_learned_preferences := (user_learned_preferences svc)(user_id \<mapsto> decayed)\<rparr>,
          decayed))"

text \<open>
  \<^verbatim>\<open>get_learned_preferences\<close>: the stored map, divided by the largest absolute value
  when that exceeds 1. \<^verbatim>\<open>max\<close> over the values keeps the largest seen so far.
\<close>

definition max_abs :: "prefs_dict \<Rightarrow> real" where
  "max_abs prefs =
     (case prefs of [] \<Rightarrow> 1 | kv # rest \<Rightarrow> fold (\<lambda>kv m. max m \<bar>snd kv\<bar>) rest \<bar>snd kv\<bar>)"

definition normalize_prefs :: "prefs_dict \<Rightarrow> prefs_dict" where
  "normalize_prefs prefs =
     (let max_val = max_abs prefs
      in if max_val > 1 then map (\<lambda>kv. (fst kv, snd kv / max_val)) prefs else prefs)"

definition get_learned_preferences :: "preference_service \<Rightarrow> string \<Rightarrow> prefs_dict" where
  "get_learned_preferences svc user_id =
     (case user_learned_preferences svc user_id of
        None \<Rightarrow> []
      | Some prefs \<Rightarrow> normalize_prefs prefs)"

section \<open>Collaborative filtering service\<close>

text \<open>
  The service keeps a table of user-to-user similarities and its own copy of the user
  profiles. The table is filled by \<^verbatim>\<open>compute_user_similarities\<close> from numpy and
  scikit-learn results; the functions below only read it. Dicts are association lists
  in insertion order, which is the order \<^verbatim>\<open>sorted\<close> sees.
\<close>

record collaborative_service =
  n_components :: nat
  min_interactions :: nat
  user_similarities :: "(string \<times> (string \<times> real) list) list"
  cf_user_profiles :: "(string \<times> user_profile) list"

definition cf_get_interaction_weight :: "user_interaction \<Rightarrow> real" where
  "cf_get_interaction_weight interaction =
     (let base_weight =
            dict_get [(''view'', 1), (''like'', 2), (''visit'', 3), (''rate'', 4)]
              (interaction_type interaction) 1
      in case ia_rating interaction of
           Some r \<Rightarrow> base_weight * (r / 5)
         | None \<Rightarrow> base_weight)"

text \<open>
  \<^verbatim>\<open>sorted(..., key=lambda x: x[1], reverse=True)\<close> is stable: entries with equal
  scores keep their order. Sorting by the negated score with the stable insertion sort
  of the list library gives the same list.
\<close>

definition sorted_by_score_desc :: "('a \<times> real) list \<Rightarrow> ('a \<times> real) list" where
  "sorted_by_score_desc xs = sort_key (\<lambda>x. - snd x) xs"

definition find_similar_users ::
  "collaborative_service \<Rightarrow> string \<Rightarrow> nat \<Rightarrow> (string \<times> real) list" where
  "find_similar_users svc user_id top_k =
     (case map_of (user_similarities svc) user_id of
        None \<Rightarrow> []
      | Some similarities \<Rightarrow> take top_k (sorted_by_score_desc similarities))"

text \<open>
  The inner loops of \<^verbatim>\<open>generate_collaborative_recommendations\<close>: one neighbour adds
  \<^verbatim>\<open>similarity * interaction_weight\<close> to the score and \<^verbatim>\<open>similarity\<close> to the total
  weight, for its first interaction with the item; a neighbour without a profile or
  without such an interaction adds nothing.
\<close>

definition neighbour_step ::
  "collaborative_service \<Rightarrow> string \<Rightarrow> string \<times> real \<Rightarrow> real \<times> real \<Rightarrow> real \<times> real" where
  "neighbour_step svc iid similar_user acc =
     (case map_of (cf_user_profiles svc) (fst similar_user) of
        None \<Rightarrow> acc
      | Some similar_profile \<Rightarrow>
          (case find (\<lambda>interaction. ia_item_id interaction = iid)
                  (interaction_history similar_profile) of
             None \<Rightarrow> acc
           | Some interaction \<Rightarrow>
               (fst acc + snd similar_user * cf_get_interaction_weight interaction,
                snd acc + snd similar_user)))"

definition score_and_weight ::
  "collaborative_service \<Rightarrow> (string \<times> real) list \<Rightarrow> string \<Rightarrow> real \<times> real" where
  "score_and_weight svc similar_users iid = fold (neighbour_step svc iid) similar_users (0, 0)"

definition score_item ::
  "collaborative_service \<Rightarrow> (string \<times> real) list \<Rightarrow> string list \<Rightarrow> recommendation_item
     \<Rightarrow> (string \<times> real) list \<Rightarrow> (string \<times> real) list" where
  "score_item svc similar_users user_interacted_items item item_scores =
     (if item_id item \<in> set user_interacted_items then item_scores
      else let sw = score_and_weight svc similar_users (item_id item)
           in if snd sw > 0 then dict_set (item_id item) (fst sw / snd sw) item_scores
              else item_scores)"

definition generate_collaborative_recommendations ::
  "collaborative_service \<Rightarrow> string \<Rightarrow> recommendation_item list \<Rightarrow> nat
     \<Rightarrow> (recommendation_item \<times> real) list" where
  "generate_collaborative_recommendations svc user_id available_items top_k =
     (let similar_users = find_similar_users svc user_id 10
      in if similar_users = [] then []
         else case map_of (cf_user_profiles svc) user_id of
                None \<Rightarrow> []
              | Some user_profile \<Rightarrow>
                  (let user_interacted_items = map ia_item_id (interaction_history user_profile);
                       item_scores = fold (score_item svc similar_users user_interacted_items)
                                       available_items [];
                       sorted_items = sorted_by_score_desc item_scores
                   in List.map_filter
                        (\<lambda>entry. case find (\<lambda>item. item_id item = fst entry) available_items of
                                    None \<Rightarrow> None
                                  | Some item \<Rightarrow> Some (item, snd entry))
                        (take top_k sorted_items)))"

text \<open>
  What the orchestrator reads for one candidate (lines 284-288 of
  \<^verbatim>\<open>recommendation_engine.py\<close>): the score of the first collaborative recommendation
  for the one-item list, or 0.5 when the list of recommendations is empty.
\<close>

definition collaborative_score ::
  "collaborative_service \<Rightarrow> string \<Rightarrow> recommendation_item \<Rightarrow> real" where
  "collaborative_score svc user_id item =
     (case generate_collaborative_recommendations svc user_id [item] 1 of
        [] \<Rightarrow> 0.5
      | collab_rec # _ \<Rightarrow> snd collab_rec)"

section \<open>Contextual scoring service\<close>

text \<open>
  A contextual factor carries an untyped dict as its value. Its entries are modelled by
  the Python values the service can meet there: None, booleans, numbers, strings and
  \<^verbatim>\<open>datetime.time\<close> objects (of which only the hour is read). An operation that
  Python rejects for a value (comparing a string with a number, reading \<^verbatim>\<open>.hour\<close> of
  a number, indexing a missing key) is an error value, and every \<^verbatim>\<open>except Exception\<close>
  of the source is the place where that error is turned into the handler's result.
\<close>

datatype py_error = TypeError | ValueError | KeyError | AttributeError

datatype pyval = PNone | PBool bool | PNum real | PStr string | PTime nat

datatype context_type = WEATHER | CROWD | TIME | LOCATION | SEASON

record contextual_factor =
  factor_type :: context_type
  factor_value :: "(string \<times> pyval) list"
  impact :: real
  confidence :: real
  factor_description :: string

fun try_map :: "('a \<Rightarrow> py_error + 'b) \<Rightarrow> 'a list \<Rightarrow> py_error + 'b list" where
  "try_map f [] = Inr []"
| "try_map f (x # xs) =
     (case f x of
        Inl e \<Rightarrow> Inl e
      | Inr y \<Rightarrow> (case try_map f xs of Inl e \<Rightarrow> Inl e | Inr ys \<Rightarrow> Inr (y # ys)))"

text \<open>A value used as a number in a comparison or in \<^verbatim>\<open>math.radians\<close>.\<close>

fun py_num :: "pyval \<Rightarrow> py_error + real" where
  "py_num (PNum r) = Inr r"
| "py_num (PBool b) = Inr (if b then 1 else 0)"
| "py_num v = Inl TypeError"

fun truthy :: "pyval \<Rightarrow> bool" where
  "truthy PNone = False"
| "truthy (PBool b) = b"
| "truthy (PNum r) = (r \<noteq> 0)"
| "truthy (PStr s) = (s \<noteq> [])"
| "truthy (PTime h) = True"

definition weather_impact_weights :: "(string \<times> (string \<times> real) list) list" where
  "weather_impact_weights =
     [(''sunny'', [(''outdoor'', 1.2), (''indoor'', 0.9)]),
      (''cloudy'', [(''outdoor'', 1.0), (''indoor'', 1.0)]),
      (''rainy'', [(''outdoor'', 0.3), (''indoor'', 1.3)]),
      (''stormy'', [(''outdoor'', 0.1), (''indoor'', 1.4)]),
      (''hot'', [(''outdoor'', 0.8), (''indoor'', 1.1)]),
      (''humid'', [(''outdoor'', 0.7), (''indoor'', 1.2)]),
      (''cool'', [(''outdoor'', 1.1), (''indoor'', 0.95)]),
      (''windy'', [(''outdoor'', 0.9), (''indoor'', 1.0)])]"

definition crowd_impact_weights :: "(string \<times> real) list" where
  "crowd_impact_weights =
     [(''very_low'', 1.1), (''low'', 1.05), (''moderate'', 1.0), (''high'', 0.8),
      (''very_high'', 0.5)]"

definition time_preferences :: "(string \<times> (string \<times> real) list) list" where
  "time_preferences =
     [(''morning'', [(''cultural'', 1.2), (''outdoor'', 1.3), (''shopping'', 0.8)]),
      (''afternoon'', [(''cultural'', 1.0), (''outdoor'', 1.1), (''shopping'', 1.2)]),
      (''evening'', [(''cultural'', 0.9), (''outdoor'', 0.8), (''shopping'', 1.1),
                     (''dining'', 1.3)]),
      (''night'', [(''cultural'', 0.7), (''outdoor'', 0.5), (''shopping'', 0.6),
                   (''dining'', 1.2), (''nightlife'', 1.4)])]"

definition seasonal_weights :: "(string \<times> (string \<times> real) list) list" where
  "seasonal_weights =
     [(''spring'', [(''outdoor'', 1.1), (''flowers'', 1.3), (''hiking'', 1.2)]),
      (''summer'', [(''beach'', 1.3), (''water'', 1.2), (''indoor'', 1.1), (''outdoor'', 0.9)]),
      (''autumn'', [(''hiking'', 1.2), (''outdoor'', 1.1), (''cultural'', 1.1)]),
      (''winter'', [(''indoor'', 1.2), (''hot springs'', 1.3), (''cultural'', 1.1),
                    (''outdoor'', 0.8)])]"

fun join_with :: "string \<Rightarrow> string list \<Rightarrow> string" where
  "join_with sep [] = []"
| "join_with sep [s] = s"
| "join_with sep (s # t # rest) = s @ sep @ join_with sep (t # rest)"

definition classify_item_environment :: "recommendation_item \<Rightarrow> string" where
  "classify_item_environment item =
     (let outdoor_keywords = [''outdoor'', ''hiking'', ''beach'', ''park'', ''garden'',
                              ''mountain'', ''trail''];
          indoor_keywords = [''indoor'', ''museum'', ''mall'', ''restaurant'', ''theater'',
                             ''gallery''];
          item_text = lower (name item @ '' '' @ description item @ '' ''
                             @ join_with '' '' (categories item));
          outdoor_score = length (filter (\<lambda>keyword. str_in keyword item_text) outdoor_keywords);
          indoor_score = length (filter (\<lambda>keyword. str_in keyword item_text) indoor_keywords)
      in if outdoor_score > indoor_score then ''outdoor''
         else if indoor_score > outdoor_score then ''indoor''
         else ''mixed'')"

text \<open>
  The confidence weighting shared by all five factor kinds:
  \<^verbatim>\<open>score * (1.0 + (adjustment_factor - 1.0) * confidence)\<close>.
\<close>

definition weighted :: "real \<Rightarrow> real \<Rightarrow> real \<Rightarrow> real" where
  "weighted score adjustment_factor conf = score * (1 + (adjustment_factor - 1) * conf)"

subsection \<open>Weather\<close>

definition weather_adjustment ::
  "pyval \<Rightarrow> pyval \<Rightarrow> pyval \<Rightarrow> user_preferences \<Rightarrow> recommendation_item \<Rightarrow> py_error + real" where
  "weather_adjustment weather_condition temperature humidity user_prefs item =
     (let cats = set (categories item);
          a1 = (if weather_dependent item
                then (case weather_condition of
                        PStr c \<Rightarrow> (case map_of weather_impact_weights c of
                                     None \<Rightarrow> 1
                                   | Some weather_weights \<Rightarrow>
                                       dict_get weather_weights (classify_item_environment item) 1)
                      | _ \<Rightarrow> 1)
                else 1)
      in case py_num temperature of
           Inl e \<Rightarrow> Inl e
         | Inr t \<Rightarrow>
            (let a2 = (if t > 30
                       then (if ''outdoor'' \<in> cats \<or> ''hiking'' \<in> cats then a1 * 0.7
                             else if ''indoor'' \<in> cats \<or> ''mall'' \<in> cats then a1 * 1.2
                             else a1)
                       else if t < 15
                       then (if ''outdoor'' \<in> cats then a1 * 0.9
                             else if ''hot springs'' \<in> cats \<or> ''indoor'' \<in> cats then a1 * 1.1
                             else a1)
                       else a1)
             in case py_num humidity of
                  Inl e \<Rightarrow> Inl e
                | Inr h \<Rightarrow>
                   (let a3 = (if h > 80
                              then (if ''outdoor'' \<in> cats then a2 * 0.8
                                    else if ''air-conditioned'' \<in> cats then a2 * 1.1
                                    else a2)
                              else a2)
                    in Inr (if ''indoor_preferred'' \<in> set (weather_preferences user_prefs)
                            then (if classify_item_environment item = ''indoor''
                                  then a3 * 1.1 else a3)
                            else if ''outdoor_preferred'' \<in> set (weather_preferences user_prefs)
                            then (if classify_item_environment item = ''outdoor''
                                  then a3 * 1.1 else a3)
                            else a3))))"

definition apply_weather_context ::
  "recommendation_item list \<Rightarrow> real list \<Rightarrow> contextual_factor \<Rightarrow> user_preferences \<Rightarrow> real list" where
  "apply_weather_context items scores weather_factor user_prefs =
     (let weather_condition = dict_get (factor_value weather_factor) ''condition'' (PStr ''cloudy'');
          temperature = dict_get (factor_value weather_factor) ''temperature'' (PNum 25);
          humidity = dict_get (factor_value weather_factor) ''humidity'' (PNum 70)
      in case try_map
                (\<lambda>item_score.
                   case weather_adjustment weather_condition temperature humidity user_prefs
                          (fst item_score) of
                     Inl e \<Rightarrow> Inl e
                   | Inr a \<Rightarrow> Inr (weighted (snd item_score) a (confidence weather_factor)))
                (zip items scores) of
           Inl e \<Rightarrow> scores
         | Inr adjusted_scores \<Rightarrow> adjusted_scores)"

subsection \<open>Crowd\<close>

definition crowd_adjustment :: "(string \<times> pyval) list \<Rightarrow> recommendation_item \<Rightarrow> real" where
  "crowd_adjustment payload item =
     (let a = dict_get crowd_impact_weights (crowd_level item) 1
      in case map_of payload ''overall_crowd_level'' of
           None \<Rightarrow> a
         | Some overall_crowd \<Rightarrow>
             (if overall_crowd = PStr ''high'' \<and> crowd_level item \<in> set [''very_low'', ''low'']
              then a * 1.2 else a))"

definition apply_crowd_context ::
  "recommendation_item list \<Rightarrow> real list \<Rightarrow> contextual_factor \<Rightarrow> real list" where
  "apply_crowd_context items scores crowd_factor =
     map (\<lambda>item_score. weighted (snd item_score)
                          (crowd_adjustment (factor_value crowd_factor) (fst item_score))
                          (confidence crowd_factor))
       (zip items scores)"

subsection \<open>Time of day\<close>

text \<open>
  \<^verbatim>\<open>int(current_time.split(':')[0])\<close>: the text before the first colon, read as a
  decimal integer the way \<^verbatim>\<open>int\<close> reads ASCII text: surrounding whitespace, an
  optional sign, digits with single underscores between them.
\<close>

definition is_space :: "char \<Rightarrow> bool" where
  "is_space c = (c \<in> set [CHR '' '', CHR 0x09, CHR 0x0A, CHR 0x0B, CHR 0x0C, CHR 0x0D])"

definition strip :: "string \<Rightarrow> string" where
  "strip s = rev (dropWhile is_space (rev (dropWhile is_space s)))"

definition digit_of :: "char \<Rightarrow> nat option" where
  "digit_of c =
     map_of [(CHR ''0'', 0), (CHR ''1'', 1), (CHR ''2'', 2), (CHR ''3'', 3), (CHR ''4'', 4),
             (CHR ''5'', 5), (CHR ''6'', 6), (CHR ''7'', 7), (CHR ''8'', 8), (CHR ''9'', 9)] c"

fun digits_value :: "string \<Rightarrow> bool \<Rightarrow> nat \<Rightarrow> nat option" where
  "digits_value [] prev_digit acc = (if prev_digit then Some acc else None)"
| "digits_value (c # cs) prev_digit acc =
     (if c = CHR ''_'' then (if prev_digit then digits_value cs False acc else None)
      else case digit_of c of
             None \<Rightarrow> None
           | Some d \<Rightarrow> digits_value cs True (10 * acc + d))"

definition py_int :: "string \<Rightarrow> py_error + int" where
  "py_int s =
     (case strip s of
        [] \<Rightarrow> Inl ValueError
      | c # cs \<Rightarrow>
          (if c = CHR ''-''
           then (case digits_value cs False 0 of
                   None \<Rightarrow> Inl ValueError | Some n \<Rightarrow> Inr (- int n))
           else if c = CHR ''+''
           then (case digits_value cs False 0 of
                   None \<Rightarrow> Inl ValueError | Some n \<Rightarrow> Inr (int n))
           else (case digits_value (c # cs) False 0 of
                   None \<Rightarrow> Inl ValueError | Some n \<Rightarrow> Inr (int n))))"

fun hour_of :: "pyval \<Rightarrow> py_error + int" where
  "hour_of (PStr s) = py_int (takeWhile (\<lambda>c. c \<noteq> CHR '':'') s)"
| "hour_of (PTime h) = Inr (int h)"
| "hour_of v = Inl AttributeError"

definition get_time_period :: "int \<Rightarrow> string" where
  "get_time_period hour =
     (if 6 \<le> hour \<and> hour < 12 then ''morning''
      else if 12 \<le> hour \<and> hour < 18 then ''afternoon''
      else if 18 \<le> hour \<and> hour < 22 then ''evening''
      else ''night'')"

text \<open>
  The category loop with its \<^verbatim>\<open>break\<close>: the weight of the first category, in the
  item's order, that the table knows; 1 when there is none.
\<close>

fun category_weight :: "(string \<times> real) list \<Rightarrow> string list \<Rightarrow> real" where
  "category_weight weights [] = 1"
| "category_weight weights (category # rest) =
     (case map_of weights (lower category) of
        Some w \<Rightarrow> w
      | None \<Rightarrow> category_weight weights rest)"

definition time_adjustment :: "string \<Rightarrow> recommendation_item \<Rightarrow> real" where
  "time_adjustment time_period item =
     (let cats = set (categories item);
          a = category_weight (dict_get time_preferences time_period []) (categories item)
      in if time_period = ''morning''
         then (if ''breakfast'' \<in> cats \<or> ''dim sum'' \<in> cats then a * 1.3 else a)
         else if time_period = ''evening''
         then (if ''sunset'' \<in> cats \<or> ''night view'' \<in> cats then a * 1.2 else a)
         else if time_period = ''night''
         then (if ''night market'' \<in> cats \<or> ''bar'' \<in> cats then a * 1.3 else a)
         else a)"

definition apply_time_context ::
  "recommendation_item list \<Rightarrow> real list \<Rightarrow> contextual_factor \<Rightarrow> real list" where
  "apply_time_context items scores time_factor =
     (let current_time = dict_get (factor_value time_factor) ''current_time'' PNone
      in if \<not> truthy current_time then scores
         else case hour_of current_time of
                Inl e \<Rightarrow> scores
              | Inr hour \<Rightarrow>
                  map (\<lambda>item_score. weighted (snd item_score)
                                       (time_adjustment (get_time_period hour) (fst item_score))
                                       (confidence time_factor))
                    (zip items scores))"

subsection \<open>Location\<close>

definition radians :: "real \<Rightarrow> real" where
  "radians x = x * pi / 180"

definition calculate_distance :: "real \<Rightarrow> real \<Rightarrow> real \<Rightarrow> real \<Rightarrow> real" where
  "calculate_distance lat1d lon1d lat2d lon2d =
     (let lat1 = radians lat1d; lon1 = radians lon1d;
          lat2 = radians lat2d; lon2 = radians lon2d;
          dlat = lat2 - lat1; dlon = lon2 - lon1;
          a = (sin (dlat / 2))\<^sup>2 + cos lat1 * cos lat2 * (sin (dlon / 2))\<^sup>2;
          c = 2 * arcsin (sqrt a)
      in c * 6371)"

definition distance_adjustment :: "real \<Rightarrow> real" where
  "distance_adjustment distance =
     (if distance < 1 then 1.2
      else if distance < 5 then 1.1
      else if distance < 10 then 1.0
      else if distance < 20 then 0.9
      else 0.8)"

definition apply_location_context ::
  "recommendation_item list \<Rightarrow> real list \<Rightarrow> contextual_factor \<Rightarrow> real list" where
  "apply_location_context items scores location_factor =
     (let user_location = factor_value location_factor
      in if user_location = [] \<or> map_of user_location ''latitude'' = None then scores
         else case map_of user_location ''latitude'' of
                None \<Rightarrow> scores
              | Some user_lat \<Rightarrow>
                 (case map_of user_location ''longitude'' of
                    None \<Rightarrow> scores
                  | Some user_lon \<Rightarrow>
                     (case try_map
                             (\<lambda>item_score.
                                case py_num user_lat of
                                  Inl e \<Rightarrow> Inl e
                                | Inr lat \<Rightarrow>
                                   (case py_num user_lon of
                                      Inl e \<Rightarrow> Inl e
                                    | Inr lon \<Rightarrow>
                                        Inr (weighted (snd item_score)
                                               (distance_adjustment
                                                  (calculate_distance lat lon
                                                     (latitude (item_location (fst item_score)))
                                                     (longitude (item_location (fst item_score)))))
                                               (confidence location_factor))))
                             (zip items scores) of
                        Inl e \<Rightarrow> scores
                      | Inr adjusted_scores \<Rightarrow> adjusted_scores)))"

subsection \<open>Season\<close>

definition apply_seasonal_context ::
  "recommendation_item list \<Rightarrow> real list \<Rightarrow> contextual_factor \<Rightarrow> real list" where
  "apply_seasonal_context items scores season_factor =
     (let season = dict_get (factor_value season_factor) ''season'' (PStr ''spring'');
          season_weights = (case season of
                              PStr s \<Rightarrow> dict_get seasonal_weights s []
                            | _ \<Rightarrow> [])
      in map (\<lambda>item_score. weighted (snd item_score)
                              (category_weight season_weights (categories (fst item_score)))
                              (confidence season_factor))
           (zip items scores))"

subsection \<open>All factors, in the order given\<close>

definition apply_factor ::
  "recommendation_item list \<Rightarrow> user_preferences \<Rightarrow> contextual_factor \<Rightarrow> real list \<Rightarrow> real list" where
  "apply_factor items user_prefs factor contextual_scores =
     (case factor_type factor of
        WEATHER \<Rightarrow> apply_weather_context items contextual_scores factor user_prefs
      | CROWD \<Rightarrow> apply_crowd_context items contextual_scores factor
      | TIME \<Rightarrow> apply_time_context items contextual_scores factor
      | LOCATION \<Rightarrow> apply_location_context items contextual_scores factor
      | SEASON \<Rightarrow> apply_seasonal_context items contextual_scores factor)"

text \<open>
  \<^verbatim>\<open>apply_contextual_scoring\<close>: the length check raises \<^verbatim>\<open>ValueError\<close> inside the
  \<^verbatim>\<open>try\<close>, and the handler returns the base scores.
\<close>

definition apply_contextual_scoring ::
  "recommendation_item list \<Rightarrow> real list \<Rightarrow> contextual_factor list \<Rightarrow> user_preferences
     \<Rightarrow> py_error + real list" where
  "apply_contextual_scoring items base_scores factors user_prefs =
     (case (if length items \<noteq> length base_scores then Inl ValueError
            else Inr (fold (apply_factor items user_prefs) factors base_scores)) of
        Inl e \<Rightarrow> Inr base_scores
      | Inr contextual_scores \<Rightarrow> Inr contextual_scores)"

section \<open>Feedback and rating prediction in the preference learning service\<close>

definition update_attribute_preferences ::
  "real \<Rightarrow> prefs_dict \<Rightarrow> recommendation_item \<Rightarrow> real \<Rightarrow> prefs_dict" where
  "update_attribute_preferences lr learned_prefs item feedback_weight =
     (let p1 = dict_add
                 (if estimated_cost item < 100 then ''budget_low''
                  else if estimated_cost item < 300 then ''budget_medium''
                  else if estimated_cost item < 800 then ''budget_high''
                  else ''budget_luxury'') (feedback_weight * lr) learned_prefs;
          p2 = dict_add
                 (if estimated_duration item < 120 then ''duration_short''
                  else if estimated_duration item < 240 then ''duration_medium''
                  else ''duration_long'') (feedback_weight * lr) p1
      in dict_add (''crowd_'' @ crowd_level item) (feedback_weight * lr) p2)"

definition positive_keywords :: "(string \<times> string) list" where
  "positive_keywords =
     [(''authentic'', ''authenticity_high''), (''local'', ''authenticity_high''),
      (''quiet'', ''crowd_low''), (''peaceful'', ''crowd_low''),
      (''affordable'', ''budget_low''), (''cheap'', ''budget_low''),
      (''quick'', ''duration_short''), (''fast'', ''duration_short''),
      (''beautiful'', ''quality_high''), (''amazing'', ''quality_high''),
      (''excellent'', ''quality_high'')]"

definition negative_keywords :: "(string \<times> string) list" where
  "negative_keywords =
     [(''crowded'', ''crowd_high''), (''busy'', ''crowd_high''),
      (''expensive'', ''budget_high''), (''costly'', ''budget_high''),
      (''long'', ''duration_long''), (''slow'', ''duration_long''),
      (''touristy'', ''authenticity_low''), (''fake'', ''authenticity_low''),
      (''poor'', ''quality_low''), (''bad'', ''quality_low'')]"

definition process_text_feedback :: "real \<Rightarrow> prefs_dict \<Rightarrow> string \<Rightarrow> real \<Rightarrow> prefs_dict" where
  "process_text_feedback lr learned_prefs feedback feedback_weight =
     (let feedback_lower = lower feedback;
          p1 = fold (\<lambda>kw p. if str_in (fst kw) feedback_lower
                             then dict_add (snd kw) (\<bar>feedback_weight\<bar> * lr) p else p)
                 positive_keywords learned_prefs
      in fold (\<lambda>kw p. if str_in (fst kw) feedback_lower
                        then dict_add (snd kw) (- (\<bar>feedback_weight\<bar> * lr)) p else p)
           negative_keywords p1)"

definition update_preferences_from_feedback ::
  "preference_service \<Rightarrow> string \<Rightarrow> string \<Rightarrow> real \<Rightarrow> string option \<Rightarrow> recommendation_item
     \<Rightarrow> preference_service" where
  "update_preferences_from_feedback svc user_id recommendation_id rating_given feedback
     recommended_item =
     (let start = (case user_learned_preferences svc user_id of None \<Rightarrow> [] | Some p \<Rightarrow> p);
          feedback_weight = (rating_given - 3) / 2;
          p1 = fold (\<lambda>category p. dict_add (''category_'' @ lower category)
                                      (feedback_weight * learning_rate svc) p)
                 (categories recommended_item) start;
          p2 = update_attribute_preferences (learning_rate svc) p1 recommended_item
                 feedback_weight;
          p3 = (case feedback of
                  None \<Rightarrow> p2
                | Some text \<Rightarrow>
                    if text = [] then p2
                    else process_text_feedback (learning_rate svc) p2 text feedback_weight)
      in svc\<lparr>user_learned_preferences := (user_learned_preferences svc)(user_id \<mapsto> p3)\<rparr>)"

definition merge_explicit_and_learned_preferences ::
  "user_preferences \<Rightarrow> prefs_dict \<Rightarrow> prefs_dict" where
  "merge_explicit_and_learned_preferences explicit_prefs learned_prefs =
     (let explicit_weight = 1.5;
          m1 = fold (\<lambda>interest m. dict_add (''category_'' @ lower interest) explicit_weight m)
                 (interests explicit_prefs) learned_prefs;
          m2 = dict_add (''budget_'' @ budget_range explicit_prefs) explicit_weight m1
      in case map_of [(''low'', ''duration_short''), (''moderate'', ''duration_medium''),
                      (''high'', ''duration_long''), (''extreme'', ''duration_long'')]
                (activity_level explicit_prefs) of
           None \<Rightarrow> m2
         | Some activity_key \<Rightarrow> dict_add activity_key explicit_weight m2)"

definition attribute_scores :: "prefs_dict \<Rightarrow> recommendation_item \<Rightarrow> real list" where
  "attribute_scores merged_prefs item =
     (let has = (\<lambda>k. map_of merged_prefs k \<noteq> None);
          val = (\<lambda>k. dict_get merged_prefs k 0);
          budget = (if estimated_cost item < 100 \<and> has ''budget_low'' then [val ''budget_low'']
                    else if estimated_cost item < 300 \<and> has ''budget_medium''
                    then [val ''budget_medium'']
                    else if estimated_cost item < 800 \<and> has ''budget_high''
                    then [val ''budget_high'']
                    else if has ''budget_luxury'' then [val ''budget_luxury'']
                    else []);
          duration = (if estimated_duration item < 120 \<and> has ''duration_short''
                      then [val ''duration_short'']
                      else if estimated_duration item < 240 \<and> has ''duration_medium''
                      then [val ''duration_medium'']
                      else if has ''duration_long'' then [val ''duration_long'']
                      else []);
          crowd = (if has (''crowd_'' @ crowd_level item)
                   then [val (''crowd_'' @ crowd_level item)] else [])
      in budget @ duration @ crowd)"

definition predict_user_rating ::
  "preference_service \<Rightarrow> string \<Rightarrow> recommendation_item \<Rightarrow> user_preferences \<Rightarrow> real" where
  "predict_user_rating svc user_id item explicit_prefs =
     (let learned_prefs = get_learned_preferences svc user_id;
          merged_prefs = merge_explicit_and_learned_preferences explicit_prefs learned_prefs
      in if merged_prefs = [] then 3
         else
           (let after_categories =
                  fold (\<lambda>category acc.
                          case map_of merged_prefs (''category_'' @ lower category) of
                            None \<Rightarrow> acc
                          | Some w \<Rightarrow> (fst acc + w, snd acc + \<bar>w\<bar>))
                    (categories item) (3, 0);
                scores = attribute_scores merged_prefs item;
                predicted_score = (if scores \<noteq> []
                                   then fst after_categories + sum_list scores / real (length scores)
                                   else fst after_categories);
                total_weight = (if scores \<noteq> [] then snd after_categories + 1
                                else snd after_categories)
            in if total_weight > 0 then max 1 (min 5 predicted_score) else 3))"

section \<open>Recommendation engine\<close>

text \<open>
  The orchestrator. What it takes from outside the four services is collected in one
  record: the content-based service's answers (computed by scikit-learn's vectorizer and
  scaler), the generated texts (which depend on float formatting and on the iteration
  order of Python sets), the recomputation of the similarity table (numpy and
  scikit-learn), and the declarations of \<^verbatim>\<open>models/recommendation.py\<close> that the
  services rely on: the default \<^verbatim>\<open>UserPreferences()\<close> and the values each enum accepts.
\<close>

record recommendation_request =
  req_user_id :: string
  req_preferences :: user_preferences
  req_contextual_factors :: "contextual_factor list"
  recommendation_types :: "string list"
  max_results :: nat
  include_alternatives :: bool

record recommendation_response =
  rec_id :: string
  rec_user_id :: string
  rec_item :: recommendation_item
  personalized_score :: real
  rec_contextual_factors :: "contextual_factor list"
  reasoning :: string
  alternatives :: "recommendation_item list"
  generated_at :: real
  valid_until :: real

record externals =
  content_recs :: "user_profile \<Rightarrow> recommendation_item \<Rightarrow> (recommendation_item \<times> real) list"
  item_similarities :: "string \<Rightarrow> (string \<times> real) list"
  generate_reasoning :: "recommendation_item \<Rightarrow> (string \<times> real) list \<Rightarrow> user_profile \<Rightarrow> string"
  contextual_explanations :: "recommendation_item \<Rightarrow> contextual_factor list \<Rightarrow> real \<Rightarrow> string list"
  format_timestamp :: "real \<Rightarrow> string"
  recompute_similarities :: "collaborative_service \<Rightarrow> py_error + collaborative_service"
  default_preferences :: user_preferences
  budget_range_values :: "string list"
  group_type_values :: "string list"
  activity_level_values :: "string list"

record engine =
  collaborative :: collaborative_service
  preference :: preference_service
  user_profiles :: "(string \<times> user_profile) list"
  available_items :: "recommendation_item list"
  recommendation_history :: "(string \<times> recommendation_response list) list"

definition algorithm_weights :: "(string \<times> real) list" where
  "algorithm_weights =
     [(''collaborative'', 0.3), (''content_based'', 0.4), (''contextual'', 0.2),
      (''preference_learning'', 0.1)]"

definition get_or_create_user_profile ::
  "engine \<Rightarrow> string \<Rightarrow> user_preferences \<Rightarrow> real \<Rightarrow> engine \<times> user_profile" where
  "get_or_create_user_profile eng user_id prefs now =
     (let profile = (case map_of (user_profiles eng) user_id of
                       None \<Rightarrow> \<lparr>up_user_id = user_id, preferences = prefs,
                                 interaction_history = [], learned_preferences = [],
                                 similarity_scores = [], last_updated = now\<rparr>
                     | Some existing \<Rightarrow> existing\<lparr>preferences := prefs\<rparr>)
      in (eng\<lparr>user_profiles := dict_set user_id profile (user_profiles eng)\<rparr>, profile))"

text \<open>
  The budget bands of the candidate filter; \<^verbatim>\<open>float('inf')\<close> is the missing upper
  bound.
\<close>

definition budget_ranges :: "(string \<times> real \<times> real option) list" where
  "budget_ranges =
     [(''low'', (0, Some 100)), (''medium'', (0, Some 300)), (''high'', (0, Some 800)),
      (''luxury'', (0, None))]"

definition within_budget :: "real \<times> real option \<Rightarrow> real \<Rightarrow> bool" where
  "within_budget band cost =
     (fst band \<le> cost \<and> (case snd band of None \<Rightarrow> True | Some upper \<Rightarrow> cost \<le> upper))"

definition filter_candidate_items ::
  "engine \<Rightarrow> recommendation_request \<Rightarrow> recommendation_item list" where
  "filter_candidate_items eng request =
     (let candidates = available_items eng;
          c1 = (if recommendation_types request \<noteq> []
                then filter (\<lambda>item. item_type item \<in> set (recommendation_types request)) candidates
                else candidates);
          budget_range_of = dict_get budget_ranges (budget_range (req_preferences request))
                              (0, None);
          c2 = filter (\<lambda>item. within_budget budget_range_of (estimated_cost item)) c1
      in if dietary_restrictions (req_preferences request) \<noteq> []
         then filter (\<lambda>item. item_type item \<noteq> ''restaurant''
                        \<or> \<not> list_ex (\<lambda>restriction. str_in restriction (lower (description item)))
                               (dietary_restrictions (req_preferences request)))
                c2
         else c2)"

subsection \<open>Hybrid scores\<close>

definition content_based_score :: "externals \<Rightarrow> user_profile \<Rightarrow> recommendation_item \<Rightarrow> real" where
  "content_based_score ext profile item =
     (case content_recs ext profile item of [] \<Rightarrow> 0.5 | content_rec # _ \<Rightarrow> snd content_rec)"

definition preference_learning_score ::
  "engine \<Rightarrow> recommendation_request \<Rightarrow> recommendation_item \<Rightarrow> real" where
  "preference_learning_score eng request item =
     (predict_user_rating (preference eng) (req_user_id request) item (req_preferences request) - 1)
     / 4"

definition hybrid_scores ::
  "externals \<Rightarrow> engine \<Rightarrow> user_profile \<Rightarrow> recommendation_request \<Rightarrow> recommendation_item
     \<Rightarrow> (string \<times> real) list" where
  "hybrid_scores ext eng profile request item =
     [(''content_based'', content_based_score ext profile item),
      (''collaborative'', collaborative_score (collaborative eng) (req_user_id request) item),
      (''preference_learning'', preference_learning_score eng request item)]"

text \<open>
  \<^verbatim>\<open>sum(scores.get(approach, 0.5) * weight for approach, weight in
  self.algorithm_weights.items())\<close>: an approach without a score counts as 0.5.
\<close>

definition final_score :: "(string \<times> real) list \<Rightarrow> real" where
  "final_score scores =
     fold (\<lambda>aw total. total + dict_get scores (fst aw) 0.5 * snd aw) algorithm_weights 0"

definition find_alternatives ::
  "externals \<Rightarrow> recommendation_item \<Rightarrow> recommendation_item list \<Rightarrow> recommendation_item list" where
  "find_alternatives ext item candidate_items =
     take 2 (List.map_filter
               (\<lambda>entry. case find (\<lambda>i. item_id i = fst entry) candidate_items of
                           None \<Rightarrow> None
                         | Some similar_item \<Rightarrow>
                             if snd entry > 0.5 then Some similar_item else None)
               (item_similarities ext (item_id item)))"

definition hybrid_recommendation ::
  "externals \<Rightarrow> engine \<Rightarrow> user_profile \<Rightarrow> recommendation_item list \<Rightarrow> recommendation_request
     \<Rightarrow> real \<Rightarrow> recommendation_item \<Rightarrow> recommendation_response" where
  "hybrid_recommendation ext eng profile candidate_items request now item =
     (let scores = hybrid_scores ext eng profile request item
      in \<lparr>rec_id = ''rec_'' @ item_id item @ ''_'' @ format_timestamp ext now,
          rec_user_id = req_user_id request,
          rec_item = item,
          personalized_score = final_score scores,
          rec_contextual_factors = req_contextual_factors request,
          reasoning = generate_reasoning ext item scores profile,
          alternatives = (if include_alternatives request
                          then find_alternatives ext item candidate_items else []),
          generated_at = now,
          valid_until = now + 24 * 3600\<rparr>)"

definition generate_hybrid_recommendations ::
  "externals \<Rightarrow> engine \<Rightarrow> user_profile \<Rightarrow> recommendation_item list \<Rightarrow> recommendation_request
     \<Rightarrow> real \<Rightarrow> recommendation_response list" where
  "generate_hybrid_recommendations ext eng profile candidate_items request now =
     map (hybrid_recommendation ext eng profile candidate_items request now) candidate_items"

subsection \<open>Contextual adjustment, ranking and storage\<close>

definition adjust_recommendation ::
  "externals \<Rightarrow> contextual_factor list \<Rightarrow> recommendation_response \<times> real
     \<Rightarrow> recommendation_response" where
  "adjust_recommendation ext factors rec_adjusted =
     (let recommendation = fst rec_adjusted;
          score_change = snd rec_adjusted - personalized_score recommendation;
          explanations = contextual_explanations ext (rec_item recommendation) factors score_change
      in recommendation
           \<lparr>personalized_score := snd rec_adjusted,
            reasoning := (if explanations \<noteq> []
                          then reasoning recommendation @ '' '' @ join_with '' '' explanations
                          else reasoning recommendation)\<rparr>)"

definition apply_contextual_adjustments ::
  "externals \<Rightarrow> recommendation_response list \<Rightarrow> contextual_factor list \<Rightarrow> user_preferences
     \<Rightarrow> recommendation_response list" where
  "apply_contextual_adjustments ext recommendations factors prefs =
     (case apply_contextual_scoring (map rec_item recommendations)
             (map personalized_score recommendations) factors prefs of
        Inl e \<Rightarrow> recommendations
      | Inr adjusted_scores \<Rightarrow>
          map (adjust_recommendation ext factors) (zip recommendations adjusted_scores))"

definition store_recommendations ::
  "engine \<Rightarrow> string \<Rightarrow> recommendation_response list \<Rightarrow> engine" where
  "store_recommendations eng user_id recommendations =
     (let stored = dict_get (recommendation_history eng) user_id [] @ recommendations
      in eng\<lparr>recommendation_history :=
               dict_set user_id (drop (length stored - 100) stored) (recommendation_history eng)\<rparr>)"

text \<open>
  \<^verbatim>\<open>generate_recommendations\<close> in its three stages: the profile is resolved and the
  preference learner run over its history; the candidates are scored, adjusted, sorted
  (stably, best first) and cut to the requested number; the result is stored.
\<close>

definition resolve_profile_and_learn ::
  "engine \<Rightarrow> recommendation_request \<Rightarrow> real \<Rightarrow> engine \<times> user_profile" where
  "resolve_profile_and_learn eng request now =
     (let created = get_or_create_user_profile eng (req_user_id request)
                      (req_preferences request) now;
          learned = learn_from_interactions (preference (fst created)) (req_user_id request)
                      (interaction_history (snd created)) (available_items (fst created))
      in ((fst created)\<lparr>preference := fst learned\<rparr>, snd created))"

definition rank_recommendations ::
  "externals \<Rightarrow> engine \<Rightarrow> user_profile \<Rightarrow> recommendation_request \<Rightarrow> real
     \<Rightarrow> recommendation_item list \<Rightarrow> recommendation_response list" where
  "rank_recommendations ext eng profile request now candidate_items =
     (let recommendations =
            generate_hybrid_recommendations ext eng profile candidate_items request now;
          adjusted = (if req_contextual_factors request \<noteq> []
                      then apply_contextual_adjustments ext recommendations
                             (req_contextual_factors request) (req_preferences request)
                      else recommendations)
      in take (max_results request) (sort_key (\<lambda>r. - personalized_score r) adjusted))"

definition generate_recommendations ::
  "externals \<Rightarrow> engine \<Rightarrow> recommendation_request \<Rightarrow> real
     \<Rightarrow> engine \<times> recommendation_response list" where
  "generate_recommendations ext eng request now =
     (let resolved = resolve_profile_and_learn eng request now;
          candidate_items = filter_candidate_items (fst resolved) request
      in if candidate_items = [] then (fst resolved, [])
         else
           (let final_recommendations =
                  rank_recommendations ext (fst resolved) (snd resolved) request now
                    candidate_items
            in (store_recommendations (fst resolved) (req_user_id request)
                  final_recommendations,
                final_recommendations)))"

subsection \<open>Feedback\<close>

text \<open>
  \<^verbatim>\<open>update_user_interactions\<close> of the collaborative service re-raises what the
  recomputation raises; the profile has been updated by then. The result is the
  exception, if any, and the state left behind.
\<close>

definition update_user_interactions ::
  "externals \<Rightarrow> collaborative_service \<Rightarrow> string \<Rightarrow> user_interaction list
     \<Rightarrow> py_error option \<times> collaborative_service" where
  "update_user_interactions ext svc user_id interactions =
     (let profile = (case map_of (cf_user_profiles svc) user_id of
                       Some existing \<Rightarrow>
                         existing\<lparr>interaction_history :=
                                    interaction_history existing @ interactions\<rparr>
                     | None \<Rightarrow> \<lparr>up_user_id = user_id, preferences = default_preferences ext,
                                 interaction_history = interactions, learned_preferences = [],
                                 similarity_scores = [], last_updated = 0\<rparr>);
          svc1 = svc\<lparr>cf_user_profiles := dict_set user_id profile (cf_user_profiles svc)\<rparr>
      in if length interactions \<ge> min_interactions svc1
            \<and> length (cf_user_profiles svc1) \<ge> min_interactions svc1
         then (case recompute_similarities ext svc1 of
                 Inl e \<Rightarrow> (Some e, svc1)
               | Inr svc2 \<Rightarrow> (None, svc2))
         else (None, svc1))"

definition process_feedback ::
  "externals \<Rightarrow> engine \<Rightarrow> string \<Rightarrow> string \<Rightarrow> real \<Rightarrow> string option \<Rightarrow> real
     \<Rightarrow> py_error option \<times> engine" where
  "process_feedback ext eng user_id recommendation_id rating_given feedback now =
     (let user_recs = dict_get (recommendation_history eng) user_id []
      in case find (\<lambda>r. rec_id r = recommendation_id) user_recs of
           None \<Rightarrow> (None, eng)
         | Some recommendation \<Rightarrow>
             (let pl = update_preferences_from_feedback (preference eng) user_id
                         recommendation_id rating_given feedback (rec_item recommendation);
                  interaction = \<lparr>ia_user_id = user_id,
                                 ia_item_id = item_id (rec_item recommendation),
                                 interaction_type = ''rate'', ia_rating = Some rating_given,
                                 timestamp = now,
                                 ia_context = [(''recommendation_id'', recommendation_id)]\<rparr>;
                  profiles = (case map_of (user_profiles eng) user_id of
                                None \<Rightarrow> user_profiles eng
                              | Some profile \<Rightarrow>
                                  dict_set user_id
                                    (profile\<lparr>interaction_history :=
                                               interaction_history profile @ [interaction]\<rparr>)
                                    (user_profiles eng));
                  updated = update_user_interactions ext (collaborative eng) user_id [interaction]
              in (fst updated,
                  eng\<lparr>preference := pl, user_profiles := profiles,
                      collaborative := snd updated\<rparr>)))"

subsection \<open>Preference updates\<close>

text \<open>
  The preference dict sent by a client holds strings and lists of strings; anything else,
  and a string that is not a value of the enum, makes the construction of
  \<^verbatim>\<open>UserPreferences\<close> raise. The defaults are the ones of \<^verbatim>\<open>update_user_preferences\<close>.
\<close>

datatype pref_value = PrefStr string | PrefList "string list" | PrefOther

definition pref_list :: "(string \<times> pref_value) list \<Rightarrow> string \<Rightarrow> py_error + string list" where
  "pref_list d k =
     (case dict_get d k (PrefList []) of PrefList xs \<Rightarrow> Inr xs | _ \<Rightarrow> Inl ValueError)"

definition pref_enum ::
  "(string \<times> pref_value) list \<Rightarrow> string \<Rightarrow> string \<Rightarrow> string list \<Rightarrow> py_error + string" where
  "pref_enum d k dflt allowed =
     (case dict_get d k (PrefStr dflt) of
        PrefStr s \<Rightarrow> if s \<in> set allowed then Inr s else Inl ValueError
      | _ \<Rightarrow> Inl ValueError)"

definition make_user_preferences ::
  "externals \<Rightarrow> (string \<times> pref_value) list \<Rightarrow> py_error + user_preferences" where
  "make_user_preferences ext d =
     (case pref_list d ''interests'' of Inl e \<Rightarrow> Inl e | Inr ints \<Rightarrow>
      case pref_enum d ''budget_range'' ''medium'' (budget_range_values ext) of
        Inl e \<Rightarrow> Inl e | Inr budget \<Rightarrow>
      case pref_enum d ''group_type'' ''solo'' (group_type_values ext) of
        Inl e \<Rightarrow> Inl e | Inr grp \<Rightarrow>
      case pref_list d ''dietary_restrictions'' of Inl e \<Rightarrow> Inl e | Inr diet \<Rightarrow>
      case pref_enum d ''activity_level'' ''moderate'' (activity_level_values ext) of
        Inl e \<Rightarrow> Inl e | Inr act \<Rightarrow>
      case pref_list d ''weather_preferences'' of Inl e \<Rightarrow> Inl e | Inr wp \<Rightarrow>
        Inr \<lparr>interests = ints, budget_range = budget, group_type = grp,
             dietary_restrictions = diet, activity_level = act, weather_preferences = wp\<rparr>)"

definition update_user_preferences ::
  "externals \<Rightarrow> engine \<Rightarrow> string \<Rightarrow> (string \<times> pref_value) list \<Rightarrow> real
     \<Rightarrow> py_error option \<times> engine" where
  "update_user_preferences ext eng user_id prefs_dict now =
     (case map_of (user_profiles eng) user_id of
        None \<Rightarrow> (None, eng)
      | Some profile \<Rightarrow>
          (case make_user_preferences ext prefs_dict of
             Inl e \<Rightarrow> (Some e, eng)
           | Inr user_prefs \<Rightarrow>
               (let profile1 = profile\<lparr>preferences := user_prefs, last_updated := now\<rparr>;
                    learned = learn_from_interactions (preference eng) user_id
                                (interaction_history profile1) (available_items eng)
                in (None,
                    eng\<lparr>user_profiles := dict_set user_id profile1 (user_profiles eng),
                        preference := fst learned\<rparr>))))"



section \<open>Example data\<close>

text \<open>
  The three catalogue items of \<^verbatim>\<open>_initialize_mock_data\<close>, and a small collaborative
  state: user u1 liked item 3, the neighbour u2 visited item 1 and rated item 3.
\<close>

definition victoria_peak :: recommendation_item where
  "victoria_peak =
     \<lparr>item_id = ''item_1'', item_type = ''attraction'', name = ''Victoria Peak'',
      description = ''Iconic mountain peak with panoramic city views'',
      item_location = \<lparr>latitude = 22.2783, longitude = 114.1747,
                        address = ''Victoria Peak, Hong Kong'', district = ''Central''\<rparr>,
      rating = 4.5, categories = [''outdoor'', ''scenic'', ''tourist'', ''mountain''],
      estimated_duration = 180, estimated_cost = 65, weather_dependent = True,
      crowd_level = ''high'', local_authenticity_score = 0.6\<rparr>"

definition tim_ho_wan :: recommendation_item where
  "tim_ho_wan =
     \<lparr>item_id = ''item_2'', item_type = ''restaurant'', name = ''Tim Ho Wan'',
      description = ''Michelin-starred dim sum restaurant'',
      item_location = \<lparr>latitude = 22.2793, longitude = 114.1628,
                        address = ''Central, Hong Kong'', district = ''Central''\<rparr>,
      rating = 4.3, categories = [''dining'', ''dim sum'', ''local'', ''authentic''],
      estimated_duration = 90, estimated_cost = 150, weather_dependent = False,
      crowd_level = ''moderate'', local_authenticity_score = 0.9\<rparr>"

definition star_ferry :: recommendation_item where
  "star_ferry =
     \<lparr>item_id = ''item_3'', item_type = ''activity'', name = ''Star Ferry Ride'',
      description = ''Historic ferry crossing Victoria Harbour'',
      item_location = \<lparr>latitude = 22.2944, longitude = 114.1694,
                        address = ''Tsim Sha Tsui, Hong Kong'', district = ''Tsim Sha Tsui''\<rparr>,
      rating = 4.2, categories = [''transport'', ''scenic'', ''historic'', ''water''],
      estimated_duration = 30, estimated_cost = 3, weather_dependent = True,
      crowd_level = ''low'', local_authenticity_score = 0.8\<rparr>"

definition example_preferences :: user_preferences where
  "example_preferences =
     \<lparr>interests = [''outdoor'', ''scenic''], budget_range = ''medium'', group_type = ''solo'',
      dietary_restrictions = [], activity_level = ''moderate'', weather_preferences = []\<rparr>"

definition example_interaction :: "string \<Rightarrow> string \<Rightarrow> string \<Rightarrow> real option \<Rightarrow> user_interaction" where
  "example_interaction uid iid kind r =
     \<lparr>ia_user_id = uid, ia_item_id = iid, interaction_type = kind, ia_rating = r,
      timestamp = 0, ia_context = []\<rparr>"

definition example_profile :: "string \<Rightarrow> user_interaction list \<Rightarrow> user_profile" where
  "example_profile uid history =
     \<lparr>up_user_id = uid, preferences = example_preferences, interaction_history = history,
      learned_preferences = [], similarity_scores = [], last_updated = 0\<rparr>"

definition example_collaborative :: collaborative_service where
  "example_collaborative =
     \<lparr>n_components = 50, min_interactions = 5,
      user_similarities = [(''u1'', [(''u2'', 0.9)]), (''u2'', [(''u1'', 0.9)])],
      cf_user_profiles =
        [(''u1'', example_profile ''u1'' [example_interaction ''u1'' ''item_3'' ''like'' None]),
         (''u2'', example_profile ''u2''
                    [example_interaction ''u2'' ''item_1'' ''visit'' None,
                     example_interaction ''u2'' ''item_3'' ''rate'' (Some 5)])]\<rparr>"








section \<open>Properties\<close>

lemma fold_max_ge_init: "m \<le> fold (\<lambda>kv m. max m \<bar>snd kv\<bar>) (rest :: prefs_dict) m"
proof (induction rest arbitrary: m)
  case Nil
  show ?case by simp
next
  case (Cons kv rest)
  have "m \<le> max m \<bar>snd kv\<bar>" by simp
  also have "\<dots> \<le> fold (\<lambda>kv m. max m \<bar>snd kv\<bar>) rest (max m \<bar>snd kv\<bar>)" by (rule Cons.IH)
  finally show ?case by simp
qed

lemma fold_max_ge_elem:
  "kv \<in> set rest \<Longrightarrow> \<bar>snd kv\<bar> \<le> fold (\<lambda>kv m. max m \<bar>snd kv\<bar>) (rest :: prefs_dict) m"
proof (induction rest arbitrary: m)
  case Nil
  then show ?case by simp
next
  case (Cons a rest)
  show ?case
  proof (cases "kv = a")
    case True
    have "\<bar>snd kv\<bar> \<le> max m \<bar>snd a\<bar>" using True by simp
    also have "\<dots> \<le> fold (\<lambda>kv m. max m \<bar>snd kv\<bar>) rest (max m \<bar>snd a\<bar>)"
      by (rule fold_max_ge_init)
    finally show ?thesis by simp
  next
    case False
    with Cons.prems have "kv \<in> set rest" by simp
    then show ?thesis using Cons.IH by simp
  qed
qed

lemma max_abs_ge: "kv \<in> set prefs \<Longrightarrow> \<bar>snd kv\<bar> \<le> max_abs prefs"
  by (cases prefs) (auto simp: max_abs_def intro: fold_max_ge_init fold_max_ge_elem)

lemma fold_max_le:
  "m \<le> b \<Longrightarrow> (\<And>kv. kv \<in> set rest \<Longrightarrow> \<bar>snd kv\<bar> \<le> b)
     \<Longrightarrow> fold (\<lambda>kv m. max m \<bar>snd kv\<bar>) (rest :: prefs_dict) m \<le> b"
  by (induction rest arbitrary: m) auto

lemma max_abs_le_one:
  "(\<And>kv. kv \<in> set prefs \<Longrightarrow> \<bar>snd kv\<bar> \<le> 1) \<Longrightarrow> max_abs prefs \<le> 1"
  by (cases prefs) (auto simp: max_abs_def intro!: fold_max_le)

lemma normalize_prefs_bounded:
  assumes "kv \<in> set (normalize_prefs prefs)"
  shows "\<bar>snd kv\<bar> \<le> 1"
proof (cases "max_abs prefs > 1")
  case True
  from assms True obtain kv0 where kv0: "kv0 \<in> set prefs" and kv: "kv = (fst kv0, snd kv0 / max_abs prefs)"
    by (auto simp: normalize_prefs_def Let_def)
  have "\<bar>snd kv0\<bar> \<le> max_abs prefs" using kv0 by (rule max_abs_ge)
  then have "\<bar>snd kv0\<bar> / max_abs prefs \<le> 1" using True by (simp add: divide_le_eq)
  then show ?thesis using kv True by simp
next
  case False
  with assms have "kv \<in> set prefs" by (simp add: normalize_prefs_def Let_def)
  then have "\<bar>snd kv\<bar> \<le> max_abs prefs" by (rule max_abs_ge)
  with False show ?thesis by simp
qed

lemma normalize_prefs_idem: "normalize_prefs (normalize_prefs prefs) = normalize_prefs prefs"
proof -
  have "max_abs (normalize_prefs prefs) \<le> 1"
    by (rule max_abs_le_one) (rule normalize_prefs_bounded)
  then show ?thesis by (simp add: normalize_prefs_def [of "normalize_prefs prefs"] Let_def)
qed

lemma normalize_prefs_Nil: "normalize_prefs [] = []"
  by (simp add: normalize_prefs_def max_abs_def)

text \<open>
  C9. The normalization carried out by \<^verbatim>\<open>get_learned_preferences\<close> is idempotent:
  storing the map it returned for a user and reading that user again returns the same
  map, whatever was stored before and whether or not the user was known.
\<close>

theorem get_learned_preferences_idempotent:
  "get_learned_preferences
     (svc\<lparr>user_learned_preferences :=
            (user_learned_preferences svc)(user_id \<mapsto> get_learned_preferences svc user_id)\<rparr>)
     user_id
   = get_learned_preferences svc user_id"
  by (cases "user_learned_preferences svc user_id")
     (simp_all add: get_learned_preferences_def normalize_prefs_idem normalize_prefs_Nil)

subsection \<open>Temporal decay\<close>

text \<open>
  C3. After a non-empty batch every learned signal is multiplied by 0.95 and is reset to 0
  exactly when the absolute value of the decayed signal is below 0.01; a negative signal
  of larger magnitude keeps its decayed value. The code compares the signed value with
  0.01: for a user whose stored signal \<^verbatim>\<open>crowd_high\<close> is -0.5 and a batch of one
  interaction, \<^verbatim>\<open>learn_from_interactions\<close> stores and returns 0 for that signal,
  where the decayed value is -0.475 and its magnitude is far above 0.01.
\<close>

theorem learn_from_interactions_resets_negative_signal:
  "snd (learn_from_interactions
          (new_preference_service\<lparr>user_learned_preferences := [''u1'' \<mapsto> [(''crowd_high'', - 0.5)]]\<rparr>)
          ''u1'' [example_interaction ''u1'' ''item_9'' ''view'' None] [])
     = [(''crowd_high'', 0)]
   \<and> \<not> \<bar>- 0.5 * decay_factor new_preference_service\<bar> < (0.01 :: real)"
  by (simp add: learn_from_interactions_def new_preference_service_def learn_one_def
        item_lookup_def apply_temporal_decay_def decay_entry_def example_interaction_def Let_def)

subsection \<open>Collaborative scores\<close>








lemma ex_fsu: "find_similar_users example_collaborative ''u1'' 10 = [(''u2'', 0.9)]"
  by (simp add: find_similar_users_def example_collaborative_def sorted_by_score_desc_def)

lemma ex_sw1: "score_and_weight example_collaborative [(''u2'', 0.9)] ''item_1'' = (2.7, 0.9)"
  by (simp add: score_and_weight_def neighbour_step_def example_collaborative_def
        example_profile_def example_interaction_def cf_get_interaction_weight_def dict_get_def)

lemma ex_sw2: "score_and_weight example_collaborative [(''u2'', 0.9)] ''item_2'' = (0, 0)"
  by (simp add: score_and_weight_def neighbour_step_def example_collaborative_def
        example_profile_def example_interaction_def cf_get_interaction_weight_def dict_get_def)

lemma ex_hist: "map_of (cf_user_profiles example_collaborative) ''u1''
   = Some (example_profile ''u1'' [example_interaction ''u1'' ''item_3'' ''like'' None])"
  by (simp add: example_collaborative_def)

lemma ex_gcr:
  "generate_collaborative_recommendations example_collaborative ''u1''
     [victoria_peak, tim_ho_wan, star_ferry] 20 = [(victoria_peak, 3)]"
  by (simp add: generate_collaborative_recommendations_def ex_fsu ex_hist Let_def
        score_item_def ex_sw1 ex_sw2 sorted_by_score_desc_def List.map_filter_simps
        example_profile_def example_interaction_def victoria_peak_def tim_ho_wan_def star_ferry_def)


lemma dict_set_subset: "e \<in> set (dict_set k x d) \<Longrightarrow> e = (k, x) \<or> e \<in> set d"
  by (induction d) (auto split: if_splits)

lemma fold_score_item_entries:
  "e \<in> set (fold (score_item svc sus interacted) items d)
   \<Longrightarrow> e \<in> set d \<or> (fst e \<notin> set interacted \<and> 0 < snd (score_and_weight svc sus (fst e)))"
proof (induction items arbitrary: d)
  case Nil
  then show ?case by simp
next
  case (Cons item items)
  from Cons.prems have "e \<in> set (fold (score_item svc sus interacted) items
                                   (score_item svc sus interacted item d))" by simp
  from Cons.IH [OF this] show ?case
  proof
    assume "e \<in> set (score_item svc sus interacted item d)"
    then show ?thesis
      by (auto simp: score_item_def Let_def split: if_splits dest!: dict_set_subset)
  next
    assume "fst e \<notin> set interacted \<and> 0 < snd (score_and_weight svc sus (fst e))"
    then show ?thesis by simp
  qed
qed

lemma map_filter_memD: "y \<in> set (List.map_filter f xs) \<Longrightarrow> \<exists>x \<in> set xs. f x = Some y"
  by (auto simp: List.map_filter_def)

lemma gcr_entries:
  assumes "(item, score) \<in> set (generate_collaborative_recommendations svc user_id catalog top_k)"
  shows "\<exists>user_profile. map_of (cf_user_profiles svc) user_id = Some user_profile
           \<and> item_id item \<notin> set (map ia_item_id (interaction_history user_profile))
           \<and> 0 < snd (score_and_weight svc (find_similar_users svc user_id 10) (item_id item))"
proof (cases "map_of (cf_user_profiles svc) user_id")
  case None
  with assms show ?thesis
    by (simp add: generate_collaborative_recommendations_def Let_def split: if_splits)
next
  case (Some user_profile)
  define sus where "sus = find_similar_users svc user_id 10"
  define interacted where "interacted = map ia_item_id (interaction_history user_profile)"
  define item_scores where
    "item_scores = fold (score_item svc sus interacted) catalog []"
  define f where "f = (\<lambda>entry :: string \<times> real.
        case find (\<lambda>item. item_id item = fst entry) catalog of
          None \<Rightarrow> None | Some item \<Rightarrow> Some (item, snd entry))"
  from assms Some have "(item, score) \<in> set (List.map_filter f (take top_k (sorted_by_score_desc item_scores)))"
    by (simp add: generate_collaborative_recommendations_def Let_def sus_def interacted_def
          item_scores_def f_def split: if_splits)
  then obtain e where e: "e \<in> set (take top_k (sorted_by_score_desc item_scores))"
      and fe: "f e = Some (item, score)"
    by (blast dest: map_filter_memD)
  from e have "e \<in> set (sorted_by_score_desc item_scores)" by (rule in_set_takeD)
  then have "e \<in> set item_scores" by (simp add: sorted_by_score_desc_def)
  then have "fst e \<notin> set interacted \<and> 0 < snd (score_and_weight svc sus (fst e))"
    unfolding item_scores_def by (auto dest: fold_score_item_entries)
  moreover from fe have "item_id item = fst e"
    by (auto simp: f_def find_Some_iff split: option.splits)
  ultimately show ?thesis using Some by (simp add: sus_def interacted_def)
qed







text \<open>
  C5. No collaborative recommendation is for an item of the target user's interaction
  history, and an item for which the neighbours contributed no positive total similarity
  weight does not appear at all: every entry of the result has an item outside the
  history and a positive total weight.
\<close>

theorem collaborative_recommendations_exclude:
  assumes "entry \<in> set (generate_collaborative_recommendations svc user_id catalog top_k)"
  shows "(\<exists>user_profile. map_of (cf_user_profiles svc) user_id = Some user_profile
            \<and> item_id (fst entry) \<notin> ia_item_id ` set (interaction_history user_profile))
       \<and> 0 < snd (score_and_weight svc (find_similar_users svc user_id 10) (item_id (fst entry)))"
proof -
  have "(fst entry, snd entry)
          \<in> set (generate_collaborative_recommendations svc user_id catalog top_k)"
    using assms by simp
  from gcr_entries [OF this] show ?thesis by auto
qed

theorem collaborative_recommendations_exclude_witness:
  "(victoria_peak, 3) \<in> set (generate_collaborative_recommendations example_collaborative ''u1''
                                 [victoria_peak, tim_ho_wan, star_ferry] 20)
   \<and> item_id victoria_peak \<notin> ia_item_id ` set [example_interaction ''u1'' ''item_3'' ''like'' None]
   \<and> 0 < snd (score_and_weight example_collaborative
                 (find_similar_users example_collaborative ''u1'' 10) (item_id victoria_peak))"
  using collaborative_recommendations_exclude
          [of "(victoria_peak, 3)" example_collaborative "''u1''"
              "[victoria_peak, tim_ho_wan, star_ferry]" 20]
  by (simp add: ex_gcr ex_hist example_profile_def)

subsection \<open>Contextual scoring\<close>

lemma lower_simps [simp]: "lower [] = []" "lower (c # cs) = lower_char c # lower cs"
  by (simp_all add: lower_def)




















end
